theory Spec2Isabelle
  imports Complex_Main "HOL-Library.Sublist"
begin

section \<open>Values the scripts handle\<close>

text \<open>
  Both scripts (\<^verbatim>\<open>app.py\<close>, the radio-navigation variant, and \<^verbatim>\<open>main_app.py\<close>, the
  tabbed variant) are straight-line glue around three external collaborators: the
  \<^verbatim>\<open>requests\<close> library, the geocoder and the unpickled classifier. What the collaborators
  answer is a parameter of the model; how the scripts react to each answer is modelled
  from the source.

  A parsed JSON document, as \<^verbatim>\<open>res.json()\<close> returns it. An object keeps its members as
  an association list; \<^verbatim>\<open>map_of\<close> reads it.
\<close>

datatype json =
    JNull
  | JBool bool
  | JNum real
  | JStr string
  | JArr "json list"
  | JObj "(string \<times> json) list"

text \<open>The exceptions that can occur; \<open>LibraryError\<close> stands for whatever a collaborator raises.\<close>

datatype exn =
    KeyError
  | IndexError
  | TypeError
  | OverflowError
  | FileNotFoundError
  | LibraryError string

text \<open>Python's truth value of a parsed document (\<^verbatim>\<open>if forecast_data\<close>).\<close>

fun truthy :: "json \<Rightarrow> bool" where
  "truthy JNull = False"
| "truthy (JBool b) = b"
| "truthy (JNum x) = (x \<noteq> 0)"
| "truthy (JStr s) = (s \<noteq> [])"
| "truthy (JArr xs) = (xs \<noteq> [])"
| "truthy (JObj kvs) = (kvs \<noteq> [])"

fun is_substr :: "string \<Rightarrow> string \<Rightarrow> bool" where
  "is_substr s [] = (s = [])"
| "is_substr s (c # cs) = (prefix s (c # cs) \<or> is_substr s cs)"

text \<open>\<^verbatim>\<open>key in x\<close> for a string key: membership of a dict's keys, of a list's elements,
  substring of a string; any other value is not iterable.\<close>

fun contains_key :: "string \<Rightarrow> json \<Rightarrow> exn + bool" where
  "contains_key k (JObj kvs) = Inr (map_of kvs k \<noteq> None)"
| "contains_key k (JArr xs) = Inr (JStr k \<in> set xs)"
| "contains_key k (JStr s) = Inr (is_substr k s)"
| "contains_key k JNull = Inl TypeError"
| "contains_key k (JBool b) = Inl TypeError"
| "contains_key k (JNum x) = Inl TypeError"

text \<open>\<^verbatim>\<open>x[key]\<close> for a string key.\<close>

fun getitem :: "json \<Rightarrow> string \<Rightarrow> exn + json" where
  "getitem (JObj kvs) k = (case map_of kvs k of None \<Rightarrow> Inl KeyError | Some v \<Rightarrow> Inr v)"
| "getitem (JArr xs) k = Inl TypeError"
| "getitem (JStr s) k = Inl TypeError"
| "getitem JNull k = Inl TypeError"
| "getitem (JBool b) k = Inl TypeError"
| "getitem (JNum x) k = Inl TypeError"

text \<open>A string is kept as its UTF-8 bytes; a character is a lead byte followed by its
  continuation bytes (\<open>0x80\<close> to \<open>0xBF\<close>).\<close>

definition continuation :: "char \<Rightarrow> bool" where
  "continuation c = (128 \<le> (of_char c :: nat) \<and> (of_char c :: nat) < 192)"

text \<open>\<^verbatim>\<open>x[0]\<close>: the first element of a list, the first character of a string; the keys of a
  parsed object are strings, so \<open>0\<close> is never one of them.\<close>

fun getitem0 :: "json \<Rightarrow> exn + json" where
  "getitem0 (JArr []) = Inl IndexError"
| "getitem0 (JArr (x # xs)) = Inr x"
| "getitem0 (JStr []) = Inl IndexError"
| "getitem0 (JStr (c # cs)) = Inr (JStr (c # takeWhile continuation cs))"
| "getitem0 (JObj kvs) = Inl KeyError"
| "getitem0 JNull = Inl TypeError"
| "getitem0 (JBool b) = Inl TypeError"
| "getitem0 (JNum x) = Inl TypeError"

definition bindE :: "exn + 'a \<Rightarrow> ('a \<Rightarrow> exn + 'b) \<Rightarrow> exn + 'b" where
  "bindE r f = (case r of Inl e \<Rightarrow> Inl e | Inr x \<Rightarrow> f x)"

section \<open>Calendar dates\<close>

text \<open>
  \<^verbatim>\<open>datetime.date\<close> and \<^verbatim>\<open>date - timedelta(days=k)\<close>: the proleptic Gregorian calendar with
  ordinals \<open>1 .. 3652059\<close> (0001-01-01 to 9999-12-31), computed as the standard library does
  (\<^verbatim>\<open>_ymd2ord\<close>, \<^verbatim>\<open>_ord2ymd\<close>); a result outside the range raises \<^verbatim>\<open>OverflowError\<close>.
\<close>

record date =
  year :: int
  month :: int
  day :: int

definition is_leap :: "int \<Rightarrow> bool" where
  "is_leap y = (y mod 4 = 0 \<and> (y mod 100 \<noteq> 0 \<or> y mod 400 = 0))"

definition days_before_year :: "int \<Rightarrow> int" where
  "days_before_year y = (let y1 = y - 1 in y1 * 365 + y1 div 4 - y1 div 100 + y1 div 400)"

definition DAYS_IN_MONTH :: "int list" where
  "DAYS_IN_MONTH = [-1, 31, 28, 31, 30, 31, 30, 31, 31, 30, 31, 30, 31]"

definition DAYS_BEFORE_MONTH :: "int list" where
  "DAYS_BEFORE_MONTH = [-1, 0, 31, 59, 90, 120, 151, 181, 212, 243, 273, 304, 334]"

definition days_before_month :: "int \<Rightarrow> int \<Rightarrow> int" where
  "days_before_month y m =
     DAYS_BEFORE_MONTH ! nat m + (if m > 2 \<and> is_leap y then 1 else 0)"

definition ymd2ord :: "int \<Rightarrow> int \<Rightarrow> int \<Rightarrow> int" where
  "ymd2ord y m d = days_before_year y + days_before_month y m + d"

definition toordinal :: "date \<Rightarrow> int" where
  "toordinal d = ymd2ord (year d) (month d) (day d)"

definition ord2ymd :: "int \<Rightarrow> date" where
  "ord2ymd n0 =
     (let n = n0 - 1;
          n400 = n div 146097; n = n mod 146097;
          n100 = n div 36524; n = n mod 36524;
          n4 = n div 1461; n = n mod 1461;
          n1 = n div 365; n = n mod 365;
          y = n400 * 400 + 1 + n100 * 100 + n4 * 4 + n1
      in if n1 = 4 \<or> n100 = 4 then \<lparr>year = y - 1, month = 12, day = 31\<rparr>
         else
           let leapyear = (n1 = 3 \<and> (n4 \<noteq> 24 \<or> n100 = 3));
               m = (n + 50) div 32;
               preceding = DAYS_BEFORE_MONTH ! nat m + (if m > 2 \<and> leapyear then 1 else 0)
           in if preceding > n
              then let m' = m - 1;
                       preceding' = preceding
                         - (DAYS_IN_MONTH ! nat m' + (if m' = 2 \<and> leapyear then 1 else 0))
                   in \<lparr>year = y, month = m', day = n - preceding' + 1\<rparr>
              else \<lparr>year = y, month = m, day = n - preceding + 1\<rparr>)"

definition MAXORDINAL :: int where
  "MAXORDINAL = 3652059"

definition date_sub_days :: "date \<Rightarrow> int \<Rightarrow> exn + date" where
  "date_sub_days d k =
     (let ordinal = toordinal d - k
      in if 0 < ordinal \<and> ordinal \<le> MAXORDINAL then Inr (ord2ymd ordinal)
         else Inl OverflowError)"

section \<open>The requests library\<close>

text \<open>
  A request is identified by what its URL is built from: the endpoint and the latitude,
  longitude and single day (\<^verbatim>\<open>start_date = end_date\<close>) interpolated into the query string.
  \<open>Forecast\<close> is \<^verbatim>\<open>api.open-meteo.com/v1/forecast\<close> with the three hourly and three daily
  variables, \<open>Archive\<close> is \<^verbatim>\<open>archive-api.open-meteo.com/v1/archive\<close> with
  \<^verbatim>\<open>daily=precipitation_sum\<close>.

  The fetchers are written against the three operations they use: \<open>get\<close> answers a
  response or raises (connection errors, timeouts), \<open>raise_for_status\<close> raises for the
  statuses the library rejects, \<open>json_of\<close> parses the body or raises when it is not JSON.
\<close>

datatype request =
    Forecast real real date
  | Archive real real date

record 'r requests =
  get :: "request \<Rightarrow> exn + 'r"
  raise_for_status :: "'r \<Rightarrow> exn option"
  json_of :: "'r \<Rightarrow> exn + json"

text \<open>
  The library as it is documented, in front of a server: the server answers a request with
  a status code and a body (the parsed document, or \<open>None\<close> when the body is not JSON), or
  the connection fails. \<^verbatim>\<open>Response.raise_for_status\<close> raises \<^verbatim>\<open>HTTPError\<close> for the statuses 400
  to 599 and for no other; \<^verbatim>\<open>Response.json\<close> raises \<^verbatim>\<open>JSONDecodeError\<close> for a body that is not
  JSON and returns any document that parses, whatever its shape.
\<close>

datatype response = Response nat "json option"

definition http_requests :: "(request \<Rightarrow> exn + response) \<Rightarrow> response requests" where
  "http_requests server =
     \<lparr>get = server,
      raise_for_status = (\<lambda>r. case r of Response status body \<Rightarrow>
        if 400 \<le> status \<and> status < 600 then Some (LibraryError ''HTTPError'') else None),
      json_of = (\<lambda>r. case r of Response status body \<Rightarrow>
        (case body of None \<Rightarrow> Inl (LibraryError ''JSONDecodeError'') | Some j \<Rightarrow> Inr j))\<rparr>"

section \<open>History fetcher\<close>

text \<open>
  \<^verbatim>\<open>get_historical_daily_rain\<close>, identical in both scripts. One row of the data frame is the
  pair of its \<^verbatim>\<open>Year\<close> and \<^verbatim>\<open>Rainfall (mm)\<close> cells. \<open>archive_row\<close> is the body of the
  \<^verbatim>\<open>try\<close>: any exception in it is caught by the loop and the offset is skipped. The date
  subtraction is before the \<^verbatim>\<open>try\<close>, so its exception leaves the function.
\<close>

type_synonym row = "int \<times> json"

definition archive_row :: "'r requests \<Rightarrow> real \<Rightarrow> real \<Rightarrow> date \<Rightarrow> exn + row" where
  "archive_row rq latitude longitude past_date =
     bindE (get rq (Archive latitude longitude past_date)) (\<lambda>resp.
     bindE (json_of rq resp) (\<lambda>res.
     bindE (getitem res ''daily'') (\<lambda>daily.
     bindE (getitem daily ''precipitation_sum'') (\<lambda>precipitation_sum.
     bindE (getitem0 precipitation_sum) (\<lambda>rain.
       Inr (year past_date, rain))))))"

fun history_loop ::
  "'r requests \<Rightarrow> real \<Rightarrow> real \<Rightarrow> date \<Rightarrow> int list \<Rightarrow> row list \<Rightarrow> exn + row list" where
  "history_loop rq latitude longitude event_date [] history_data = Inr history_data"
| "history_loop rq latitude longitude event_date (i # rest) history_data =
     (case date_sub_days event_date (i * 365) of
        Inl e \<Rightarrow> Inl e
      | Inr past_date \<Rightarrow>
          (case archive_row rq latitude longitude past_date of
             Inl e \<Rightarrow> history_loop rq latitude longitude event_date rest history_data
           | Inr r \<Rightarrow> history_loop rq latitude longitude event_date rest (history_data @ [r])))"

definition get_historical_daily_rain ::
  "'r requests \<Rightarrow> real \<Rightarrow> real \<Rightarrow> date \<Rightarrow> exn + row list" where
  "get_historical_daily_rain rq latitude longitude event_date =
     history_loop rq latitude longitude event_date [5, 4, 3, 2, 1] []"

section \<open>Floating-point probabilities\<close>

text \<open>
  \<^verbatim>\<open>predict_proba\<close> answers a NumPy scalar: \<^verbatim>\<open>float32\<close> from an XGBoost model (the model the
  docstring of \<^verbatim>\<open>load_model\<close> names), \<^verbatim>\<open>float64\<close> from others. A finite float is given by an
  integer significand \<open>m\<close> and a binary exponent \<open>e\<close>; its value is \<open>m * 2^e\<close>. A
  probability is finite, so infinities and NaN are left out.
\<close>

datatype npfloat = Float32 int int | Float64 int int

definition pow2 :: "int \<Rightarrow> real" where
  "pow2 e = (if 0 \<le> e then 2 ^ nat e else 1 / 2 ^ nat (- e))"

fun float_val :: "npfloat \<Rightarrow> real" where
  "float_val (Float32 m e) = of_int m * pow2 e"
| "float_val (Float64 m e) = of_int m * pow2 e"

text \<open>The significands and exponents of the two formats (24 and 53 bits).\<close>

fun is_float :: "npfloat \<Rightarrow> bool" where
  "is_float (Float32 m e) = (\<bar>m\<bar> < 2 ^ 24 \<and> - 149 \<le> e \<and> e \<le> 104)"
| "is_float (Float64 m e) = (\<bar>m\<bar> < 2 ^ 53 \<and> - 1074 \<le> e \<and> e \<le> 971)"

text \<open>
  The literal \<^verbatim>\<open>0.6\<close> is the double nearest to 6/10. In \<^verbatim>\<open>prediction_proba > 0.6\<close> NumPy
  (version 2, where a Python float takes the type of the NumPy scalar it meets) compares a
  \<^verbatim>\<open>float32\<close> with the literal rounded to \<^verbatim>\<open>float32\<close>, and a \<^verbatim>\<open>float64\<close> with the literal
  itself; the comparison of two floats of one type is exact.
\<close>

definition literal_0_6 :: npfloat where
  "literal_0_6 = Float64 5404319552844595 (- 53)"

definition float32_0_6 :: npfloat where
  "float32_0_6 = Float32 5033165 (- 23)"

fun exceeds_0_6 :: "npfloat \<Rightarrow> bool" where
  "exceeds_0_6 (Float32 m e) = (float_val (Float32 m e) > float_val float32_0_6)"
| "exceeds_0_6 (Float64 m e) = (float_val (Float64 m e) > float_val literal_0_6)"

section \<open>What a view leaves on the page\<close>

text \<open>
  The page elements a run produces, in order, and the calls made to the classifier. A data
  frame built from a dict of one-element lists is the list of its columns in insertion
  order. Text beyond ASCII is kept as its UTF-8 bytes.
\<close>

type_synonym dataframe = "(string \<times> json list) list"

datatype effect =
    StHeader string
  | StSubheader string
  | StMarkdown string
  | StError string
  | StWarning string
  | StInfo string
  | StSuccess string
  | StMetric string string
  | StPyplot
  | Predict dataframe
  | PredictProba dataframe

text \<open>The two scripts.\<close>

datatype app = App | MainApp

text \<open>
  String conversions and chart construction done by Python, pandas and matplotlib are
  parameters: \<open>str_exn\<close>, \<open>str_json\<close>, \<open>str_date\<close> are \<^verbatim>\<open>f"{x}"\<close>; \<open>percent0\<close>, \<open>percent1\<close>
  and \<open>rest_percent0\<close> are \<^verbatim>\<open>f"{prediction_proba*100:.0f}"\<close>,
  \<^verbatim>\<open>f"{prediction_proba*100:.1f}"\<close> and \<^verbatim>\<open>f"{100-prediction_proba*100:.0f}"\<close>, floating-point
  arithmetic included; \<open>hourly_chart\<close> builds the hourly figure from
  \<^verbatim>\<open>forecast_data['hourly']\<close>, the event date and time, or raises.
\<close>

record py =
  str_exn :: "exn \<Rightarrow> string"
  str_json :: "json \<Rightarrow> string"
  str_date :: "date \<Rightarrow> string"
  percent0 :: "npfloat \<Rightarrow> string"
  percent1 :: "npfloat \<Rightarrow> string"
  rest_percent0 :: "npfloat \<Rightarrow> string"
  hourly_chart :: "json \<Rightarrow> date \<Rightarrow> nat \<times> nat \<Rightarrow> exn option"

definition apostrophe :: string where
  "apostrophe = [CHR 0x27]"

definition backtick :: string where
  "backtick = [CHR 0x60]"

definition cloud_with_rain :: string where
  "cloud_with_rain = [CHR 0xF0, CHR 0x9F, CHR 0x8C, CHR 0xA7, CHR 0xEF, CHR 0xB8, CHR 0x8F]"

definition sun_behind_rain_cloud :: string where
  "sun_behind_rain_cloud = [CHR 0xF0, CHR 0x9F, CHR 0x8C, CHR 0xA6, CHR 0xEF, CHR 0xB8, CHR 0x8F]"

definition sun :: string where
  "sun = [CHR 0xE2, CHR 0x98, CHR 0x80, CHR 0xEF, CHR 0xB8, CHR 0x8F]"

definition warning_sign :: string where
  "warning_sign = [CHR 0xE2, CHR 0x9A, CHR 0xA0, CHR 0xEF, CHR 0xB8, CHR 0x8F]"

definition check_mark :: string where
  "check_mark = [CHR 0xE2, CHR 0x9C, CHR 0x85]"

definition degree_sign :: string where
  "degree_sign = [CHR 0xC2, CHR 0xB0]"

text \<open>A run of a piece of script: the effects so far, and a value or the exception that
  ended it.\<close>

type_synonym 'a run = "effect list \<times> (exn + 'a)"

definition emit :: "effect \<Rightarrow> unit run" where
  "emit e = ([e], Inr ())"

definition lift :: "exn + 'a \<Rightarrow> 'a run" where
  "lift r = ([], r)"

definition bindR :: "'a run \<Rightarrow> ('a \<Rightarrow> 'b run) \<Rightarrow> 'b run" where
  "bindR m f =
     (case m of
        (es, Inl e) \<Rightarrow> (es, Inl e)
      | (es, Inr x) \<Rightarrow> (case f x of (es', r) \<Rightarrow> (es @ es', r)))"

section \<open>Model loading and forecast fetcher\<close>

text \<open>
  The classifier is opaque: \<open>predict\<close> is \<^verbatim>\<open>model.predict(input_df)[0]\<close>, \<open>predict_proba\<close> is
  \<^verbatim>\<open>model.predict_proba(input_df)[0][1]\<close>; either may raise. \<open>unpickle\<close> stands for opening
  the file and \<^verbatim>\<open>pickle.load\<close>.
\<close>

record classifier =
  predict :: "dataframe \<Rightarrow> exn + int"
  predict_proba :: "dataframe \<Rightarrow> exn + npfloat"

definition load_model ::
  "py \<Rightarrow> (string \<Rightarrow> exn + classifier) \<Rightarrow> string \<Rightarrow> classifier option \<times> effect list" where
  "load_model p unpickle model_path =
     (case unpickle model_path of
        Inr model \<Rightarrow> (Some model, [])
      | Inl FileNotFoundError \<Rightarrow>
          (None, [StError (''Error: The model file '' @ apostrophe @ model_path @ apostrophe
                    @ '' was not found. Make sure it'' @ apostrophe
                    @ ''s in the same directory.'')])
      | Inl e \<Rightarrow> (None, [StError (''Error loading the model: '' @ str_exn p e)]))"



section \<open>Session state and the geocoding block\<close>

record session =
  latitude :: real
  longitude :: real
  event_date :: date
  event_time :: "nat \<times> nat"
  event_type :: string
  crowd_size :: int

text \<open>A geocoder answer: the address and coordinates of a match. The geocoder is a
  parameter that answers a match, no match (\<^verbatim>\<open>None\<close>) or raises.\<close>

datatype location = Location string real real

definition geocode_block ::
  "py \<Rightarrow> (string \<Rightarrow> exn + location option) \<Rightarrow> string \<Rightarrow> session \<Rightarrow> session \<times> effect list" where
  "geocode_block p geocode location_name s =
     (case geocode location_name of
        Inr (Some (Location address lat lon)) \<Rightarrow>
          (s\<lparr>latitude := lat, longitude := lon\<rparr>,
           [StSuccess (''Found '' @ apostrophe @ address @ apostrophe @ ''. Map centered.'')])
      | Inr None \<Rightarrow> (s, [StWarning ''Location not found. Please try another search.''])
      | Inl e \<Rightarrow> (s, [StError (''Geocoding service error: '' @ str_exn p e)]))"

section \<open>Forecast dashboard and suggestions\<close>

text \<open>
  Both views build the classifier input the same way: a data frame of three one-element
  columns read from \<^verbatim>\<open>forecast_data['daily']\<close>.
\<close>

definition input_frame :: "json \<Rightarrow> exn + dataframe" where
  "input_frame daily_data =
     bindE (bindE (getitem daily_data ''temperature_2m_max'') getitem0) (\<lambda>tmax.
     bindE (bindE (getitem daily_data ''temperature_2m_min'') getitem0) (\<lambda>tmin.
     bindE (bindE (getitem daily_data ''windspeed_10m_max'') getitem0) (\<lambda>wind.
       Inr [(''temperature_2m_max'', [tmax]),
            (''temperature_2m_min'', [tmin]),
            (''windspeed_10m_max'', [wind])])))"

definition call_predict :: "classifier \<Rightarrow> dataframe \<Rightarrow> int run" where
  "call_predict model input_df = ([Predict input_df], predict model input_df)"

definition call_predict_proba :: "classifier \<Rightarrow> dataframe \<Rightarrow> npfloat run" where
  "call_predict_proba model input_df = ([PredictProba input_df], predict_proba model input_df)"

text \<open>The risk branch of the suggestions view: the two elements it renders. The tabbed
  script sets the confidence in bold and names the event type.\<close>

definition for_your :: "app \<Rightarrow> string \<Rightarrow> string" where
  "for_your a ev = (case a of App \<Rightarrow> ''.'' | MainApp \<Rightarrow> '' for your '' @ ev @ ''.'')"

definition bold :: "app \<Rightarrow> string" where
  "bold a = (case a of App \<Rightarrow> [] | MainApp \<Rightarrow> ''**'')"

definition risk_suggestion :: "app \<Rightarrow> py \<Rightarrow> string \<Rightarrow> int \<Rightarrow> npfloat \<Rightarrow> effect list" where
  "risk_suggestion a p ev prediction prediction_proba =
     (if prediction = 1 \<and> exceeds_0_6 prediction_proba then
        [StError (''High Risk of Rain '' @ cloud_with_rain),
         StWarning (warning_sign @ '' The model predicts rain with '' @ bold a
           @ percent0 p prediction_proba @ ''% confidence'' @ bold a
           @ ''. Activating an indoor backup plan is strongly recommended'' @ for_your a ev)]
      else if prediction = 1 then
        [StWarning (''Moderate Risk of Showers '' @ sun_behind_rain_cloud),
         StInfo (''The model predicts rain with '' @ bold a
           @ percent0 p prediction_proba @ ''% confidence'' @ bold a
           @ ''. Having tents or covered areas on standby is a wise precaution''
           @ for_your a ev)]
      else
        [StSuccess (''Low Risk of Rain '' @ sun),
         StInfo (check_mark @ '' The model is '' @ bold a
           @ rest_percent0 p prediction_proba @ ''% confident it will NOT rain''
           @ bold a @ ''. Conditions look favorable'' @ for_your a ev)])"

definition check_inputs :: "app \<Rightarrow> string" where
  "check_inputs a =
     (case a of
        App \<Rightarrow> []
      | MainApp \<Rightarrow> '' Please check inputs on the '' @ apostrophe @ ''Event Input''
          @ apostrophe @ '' tab.'')"

definition suggestions_fallback :: "app \<Rightarrow> effect" where
  "suggestions_fallback a =
     StError (''The model ('' @ backtick @ ''daily_rain_classifier.pkl'' @ backtick
       @ '') or forecast data is unavailable.'' @ check_inputs a)"

definition dashboard_fallback :: "app \<Rightarrow> effect" where
  "dashboard_fallback a =
     StWarning (''Could not load model or forecast data for the dashboard.'' @ check_inputs a)"

definition suggestions_body :: "app \<Rightarrow> py \<Rightarrow> classifier \<Rightarrow> json \<Rightarrow> session \<Rightarrow> unit run" where
  "suggestions_body a p model forecast_data s =
     bindR (lift (getitem forecast_data ''daily'')) (\<lambda>daily_data.
     bindR (lift (input_frame daily_data)) (\<lambda>input_df.
     bindR (call_predict model input_df) (\<lambda>prediction.
     bindR (call_predict_proba model input_df) (\<lambda>prediction_proba.
       ([StMetric ''Model Prediction: Will it Rain?'' (if prediction = 1 then ''Yes'' else ''No''),
         StMetric ''Chances of Rain'' (percent1 p prediction_proba @ ''%'')]
        @ (case a of App \<Rightarrow> [] | MainApp \<Rightarrow> [StMarkdown ''---''])
        @ risk_suggestion a p (event_type s) prediction prediction_proba,
        Inr ())))))"

definition dashboard_body :: "app \<Rightarrow> py \<Rightarrow> classifier \<Rightarrow> json \<Rightarrow> session \<Rightarrow> unit run" where
  "dashboard_body a p model forecast_data s =
     bindR (lift (getitem forecast_data ''daily'')) (\<lambda>daily_data.
     bindR (lift (input_frame daily_data)) (\<lambda>input_df.
     bindR (call_predict_proba model input_df) (\<lambda>prediction_proba.
     bindR (emit (StMetric (case a of App \<Rightarrow> ''Rain Probability''
                                   | MainApp \<Rightarrow> ''Rain Probability (Model)'')
                    (percent1 p prediction_proba @ ''%''))) (\<lambda>_.
     bindR (lift (bindE (getitem daily_data ''temperature_2m_max'') getitem0)) (\<lambda>tmax.
     bindR (emit (StMetric ''Max Temperature'' (str_json p tmax @ degree_sign @ ''C''))) (\<lambda>_.
     bindR (lift (bindE (getitem daily_data ''windspeed_10m_max'') getitem0)) (\<lambda>wind.
     bindR (emit (StMetric ''Max Wind Speed'' (str_json p wind @ '' km/h''))) (\<lambda>_.
     bindR (emit (StMarkdown ''---'')) (\<lambda>_.
     bindR (emit (StSubheader (case a of App \<Rightarrow> ''Hourly Forecast''
                                      | MainApp \<Rightarrow> ''Hourly Forecast from API''))) (\<lambda>_.
     bindR (lift (getitem forecast_data ''hourly'')) (\<lambda>hourly.
     bindR (lift (case hourly_chart p hourly (event_date s) (event_time s) of
                    Some e \<Rightarrow> Inl e
                  | None \<Rightarrow> Inr ())) (\<lambda>_.
       emit StPyplot))))))))))))"

text \<open>
  The guard \<^verbatim>\<open>if model and forecast_data and 'daily' in forecast_data\<close>, evaluated left to
  right: the membership test runs only for a loaded model and a truthy payload, and raises
  on a payload that is not a container. A loaded classifier object is truthy.
\<close>

definition guarded ::
  "classifier option \<Rightarrow> json \<Rightarrow> (classifier \<Rightarrow> unit run) \<Rightarrow> effect \<Rightarrow> unit run" where
  "guarded model forecast_data body fallback =
     (case model of
        None \<Rightarrow> emit fallback
      | Some m \<Rightarrow>
          if \<not> truthy forecast_data then emit fallback
          else bindR (lift (contains_key ''daily'' forecast_data)) (\<lambda>has_daily.
                 if has_daily then body m else emit fallback))"

definition suggestions :: "app \<Rightarrow> py \<Rightarrow> classifier option \<Rightarrow> json \<Rightarrow> session \<Rightarrow> unit run" where
  "suggestions a p model forecast_data s =
     bindR (emit (StHeader (case a of App \<Rightarrow> ''Suggestions for Event''
                                   | MainApp \<Rightarrow> ''Suggestions for Your Event''))) (\<lambda>_.
       guarded model forecast_data
         (\<lambda>m. suggestions_body a p m forecast_data s) (suggestions_fallback a))"

definition dashboard :: "app \<Rightarrow> py \<Rightarrow> classifier option \<Rightarrow> json \<Rightarrow> session \<Rightarrow> unit run" where
  "dashboard a p model forecast_data s =
     bindR (emit (StHeader (''Forecast for '' @ str_date p (event_date s)))) (\<lambda>_.
       guarded model forecast_data
         (\<lambda>m. dashboard_body a p m forecast_data s) (dashboard_fallback a))"

section \<open>Auxiliary notions for the statements\<close>

text \<open>The dates that \<^verbatim>\<open>datetime.date\<close> can hold (the check of its constructor).\<close>

definition days_in_month :: "int \<Rightarrow> int \<Rightarrow> int" where
  "days_in_month y m = (if m = 2 \<and> is_leap y then 29 else DAYS_IN_MONTH ! nat m)"

definition valid_date :: "date \<Rightarrow> bool" where
  "valid_date d =
     (1 \<le> year d \<and> year d \<le> 9999 \<and> 1 \<le> month d \<and> month d \<le> 12
      \<and> 1 \<le> day d \<and> day d \<le> days_in_month (year d) (month d))"

text \<open>A \<^verbatim>\<open>float32\<close> whose value is that of \<^verbatim>\<open>np.float32(0.6)\<close>.\<close>

fun at_float32_0_6 :: "npfloat \<Rightarrow> bool" where
  "at_float32_0_6 (Float32 m e) = (float_val (Float32 m e) = float_val float32_0_6)"
| "at_float32_0_6 (Float64 m e) = False"

text \<open>A payload contains a daily record when \<^verbatim>\<open>forecast_data['daily']\<close> exists and holds a
  first element under each of the three feature names.\<close>

definition has_daily_record :: "json \<Rightarrow> bool" where
  "has_daily_record forecast_data =
     (case getitem forecast_data ''daily'' of
        Inl e \<Rightarrow> False
      | Inr daily_data \<Rightarrow> (case input_frame daily_data of Inl e \<Rightarrow> False | Inr df \<Rightarrow> True))"

text \<open>The inputs handed to the classifier during a run, in call order.\<close>

fun calls :: "effect list \<Rightarrow> dataframe list" where
  "calls [] = []"
| "calls (Predict df # es) = df # calls es"
| "calls (PredictProba df # es) = df # calls es"
| "calls (e # es) = calls es"

section \<open>Sample collaborators\<close>

text \<open>Concrete collaborators on which the statements below are evaluated.\<close>

definition plain_py :: py where
  "plain_py =
     \<lparr>str_exn = (\<lambda>e. case e of LibraryError m \<Rightarrow> m | _ \<Rightarrow> ''error''),
      str_json = (\<lambda>j. ''?''),
      str_date = (\<lambda>d. ''?''),
      percent0 = (\<lambda>x. ''?''),
      percent1 = (\<lambda>x. ''?''),
      rest_percent0 = (\<lambda>x. ''?''),
      hourly_chart = (\<lambda>hourly d t. None)\<rparr>"

definition rain_body :: "json \<Rightarrow> json" where
  "rain_body x = JObj [(''daily'', JObj [(''precipitation_sum'', JArr [x])])]"

text \<open>An archive that answers 1.5 mm for 2021, drops the connection for 2022, answers a
  null rainfall for 2023, an error document with status 400 for 2024 and a body that is
  not JSON otherwise.\<close>

definition patchy_archive :: "request \<Rightarrow> exn + response" where
  "patchy_archive r =
     (case r of
        Forecast la lo d \<Rightarrow> Inl (LibraryError ''ConnectionError'')
      | Archive la lo d \<Rightarrow>
          if year d = 2021 then Inr (Response 200 (Some (rain_body (JNum (3 / 2)))))
          else if year d = 2022 then Inl (LibraryError ''ConnectionError'')
          else if year d = 2023 then Inr (Response 200 (Some (rain_body JNull)))
          else if year d = 2024 then Inr (Response 400 (Some (JObj [(''error'', JBool True)])))
          else Inr (Response 200 None))"

text \<open>An archive that answers 0 mm for every day.\<close>

definition dry_archive :: "request \<Rightarrow> exn + response" where
  "dry_archive r = Inr (Response 200 (Some (rain_body (JNum 0))))"

definition daily_of :: "json list \<Rightarrow> json list \<Rightarrow> json list \<Rightarrow> json" where
  "daily_of tmax tmin wind =
     JObj [(''hourly'', JObj [(''time'', JArr []), (''precipitation_probability'', JArr [])]),
           (''daily'', JObj [(''temperature_2m_max'', JArr tmax),
                            (''temperature_2m_min'', JArr tmin),
                            (''windspeed_10m_max'', JArr wind)])]"

definition sample_forecast :: json where
  "sample_forecast = daily_of [JNum 31] [JNum 22] [JNum 12]"

definition empty_daily_forecast :: json where
  "empty_daily_forecast = daily_of [] [] []"

definition no_daily_forecast :: json where
  "no_daily_forecast = JObj [(''hourly'', JObj [])]"

definition sample_model :: classifier where
  "sample_model = \<lparr>predict = (\<lambda>df. Inr 1), predict_proba = (\<lambda>df. Inr (Float32 3 (- 2)))\<rparr>"

definition sample_session :: session where
  "sample_session =
     \<lparr>latitude = 142 / 5, longitude = 7731 / 100,
      event_date = \<lparr>year = 2026, month = 11, day = 4\<rparr>,
      event_time = (18, 0), event_type = ''Picnic'', crowd_size = 500\<rparr>"

text \<open>A model file that is not there, a geocoder that knows one place and is unreachable
  for the name \<open>offline\<close>, and four forecast servers: unreachable, status 404, a body that
  is not JSON, and a good answer.\<close>

definition missing_file :: "string \<Rightarrow> exn + classifier" where
  "missing_file model_path = Inl FileNotFoundError"

definition sample_geocoder :: "string \<Rightarrow> exn + location option" where
  "sample_geocoder location_name =
     (if location_name = ''Faridabad, India''
      then Inr (Some (Location ''Faridabad, Haryana, India'' (142 / 5) (773 / 10)))
      else if location_name = ''offline'' then Inl (LibraryError ''GeocoderUnavailable'')
      else Inr None)"



section \<open>Risk tiers\<close>

text \<open>A float whose significand has \<open>n\<close> bits and whose value is at least one half is a
  multiple of \<open>2^-n\<close>; so no \<^verbatim>\<open>float32\<close> lies strictly between 6/10 and
  \<^verbatim>\<open>np.float32(0.6)\<close>, and no \<^verbatim>\<open>float64\<close> between the literal \<^verbatim>\<open>0.6\<close> and 6/10.\<close>

lemma pow2_shift:
  assumes "- int n \<le> e"
  shows "pow2 e = 2 ^ nat (e + int n) / 2 ^ n"
proof (cases "0 \<le> e")
  case True
  then have "nat (e + int n) = nat e + n" by simp
  then show ?thesis using True by (simp add: pow2_def power_add)
next
  case False
  then have "n = nat (- e) + nat (e + int n)" using assms by simp
  then have "(2::real) ^ n = 2 ^ nat (- e) * 2 ^ nat (e + int n)"
    by (metis power_add)
  then show ?thesis using False by (simp add: pow2_def field_simps)
qed

lemma pow2_small:
  assumes "e < - int n"
  shows "pow2 e \<le> 1 / 2 ^ Suc n"
proof -
  from assms have "Suc n \<le> nat (- e)" by simp
  then have "(2::real) ^ Suc n \<le> 2 ^ nat (- e)"
    by (rule power_increasing) simp
  then show ?thesis using assms by (simp add: pow2_def field_simps)
qed

lemma pow2_pos: "0 < pow2 e"
  by (simp add: pow2_def)

lemma on_grid:
  assumes "\<bar>m\<bar> < 2 ^ n" and "1 / 2 \<le> of_int m * pow2 e"
  shows "\<exists>k::int. of_int m * pow2 e = of_int k / 2 ^ n"
proof (cases "- int n \<le> e")
  case True
  have "of_int m * pow2 e = of_int (m * 2 ^ nat (e + int n)) / 2 ^ n"
    by (simp add: pow2_shift [OF True])
  then show ?thesis by blast
next
  case False
  then have "pow2 e \<le> 1 / 2 ^ Suc n" by (intro pow2_small) simp
  moreover have "of_int m < (2::real) ^ n"
    using assms(1) by (metis abs_less_iff of_int_less_iff of_int_numeral of_int_power)
  ultimately have "of_int m * pow2 e < 2 ^ n * (1 / 2 ^ Suc n)"
    using pow2_pos [of e] assms(2)
    by (smt (verit) mult_le_cancel_left_pos mult_less_cancel_right_pos zero_less_power)
  then show ?thesis using assms(2) by simp
qed

lemma float32_exceeds:
  assumes "\<bar>m\<bar> < 2 ^ 24"
  shows "exceeds_0_6 (Float32 m e)
     = (float_val (Float32 m e) > 6 / 10 \<and> \<not> at_float32_0_6 (Float32 m e))"
proof -
  let ?v = "of_int m * pow2 e :: real"
  have t: "float_val float32_0_6 = 10066330 / 2 ^ 24"
    by (simp add: float32_0_6_def pow2_def)
  show ?thesis
  proof (cases "?v > 6 / 10")
    case True
    then have "1 / 2 \<le> ?v" by simp
    from on_grid [OF assms this] obtain k :: int where k: "?v = of_int k / 2 ^ 24" by blast
    with True have "of_int k > (10066329 :: real)" by (simp add: field_simps)
    then have "k > 10066329" by linarith
    then have "k \<ge> 10066330" by simp
    then have "(of_int k :: real) \<ge> 10066330" by linarith
    then have "?v \<ge> 10066330 / 2 ^ 24" unfolding k by (simp add: field_simps)
    then show ?thesis using True by (auto simp: t)
  next
    case False
    then show ?thesis by (simp add: t)
  qed
qed

lemma float64_exceeds:
  assumes "\<bar>m\<bar> < 2 ^ 53"
  shows "exceeds_0_6 (Float64 m e) = (float_val (Float64 m e) > 6 / 10)"
proof -
  let ?v = "of_int m * pow2 e :: real"
  have t: "float_val literal_0_6 = 5404319552844595 / 2 ^ 53"
    by (simp add: literal_0_6_def pow2_def)
  show ?thesis
  proof (cases "1 / 2 \<le> ?v")
    case True
    from on_grid [OF assms this] obtain k :: int where k: "?v = of_int k / 2 ^ 53" by blast
    have "(?v > 6 / 10) = (of_int k > (5404319552844595 :: real))"
    proof
      assume "?v > 6 / 10"
      then have "of_int k > (5404319552844595 :: real)" unfolding k by (simp add: field_simps)
      then show "of_int k > (5404319552844595 :: real)" .
    next
      assume "of_int k > (5404319552844595 :: real)"
      then have "k > 5404319552844595" by linarith
      then have "k \<ge> 5404319552844596" by simp
      then have "(of_int k :: real) \<ge> 5404319552844596" by linarith
      then show "?v > 6 / 10" unfolding k by (simp add: field_simps)
    qed
    moreover have "(?v > 5404319552844595 / 2 ^ 53) = (of_int k > (5404319552844595 :: real))"
      unfolding k by (simp add: field_simps)
    ultimately show ?thesis by (simp add: t)
  next
    case False
    then show ?thesis by (simp add: t)
  qed
qed

lemma exceeds_0_6_iff:
  assumes "is_float x"
  shows "exceeds_0_6 x = (float_val x > 6 / 10 \<and> \<not> at_float32_0_6 x)"
proof (cases x)
  case (Float32 m e)
  with assms show ?thesis using float32_exceeds [of m e] by simp
next
  case (Float64 m e)
  with assms show ?thesis using float64_exceeds [of m e] by simp
qed

text \<open>\<^verbatim>\<open>np.float32(0.6)\<close> is the \<^verbatim>\<open>float32\<close> nearest to the literal, and lies above it.\<close>

lemma float32_0_6_nearest:
  "float_val float32_0_6 - float_val literal_0_6
     < float_val literal_0_6 - float_val (Float32 10066329 (- 24))
   \<and> float_val (Float32 10066329 (- 24)) < float_val literal_0_6
   \<and> float_val literal_0_6 < float_val float32_0_6"
  by (simp add: float32_0_6_def literal_0_6_def pow2_def)

text \<open>
  Claim C1, as the code has it. The risk branch is a function of the classifier's answer
  alone (the script variant and the event type only shape the wording). For every finite
  float probability: a prediction of 1 with a probability above 0.6 renders "High Risk"
  with the indoor-backup recommendation, except for a \<^verbatim>\<open>float32\<close> probability equal to
  \<^verbatim>\<open>np.float32(0.6)\<close>, which renders "Moderate Risk"; a prediction of 1 with a probability
  of at most 0.6 renders "Moderate Risk" with the covered-standby recommendation; any
  other prediction renders "Low Risk" with the favourable-conditions message; each tier
  is rendered in exactly its own case.
\<close>

theorem risk_suggestion_tiers:
  assumes "is_float prediction_proba"
  shows
  "(prediction = 1 \<and> float_val prediction_proba > 6 / 10
      \<and> \<not> at_float32_0_6 prediction_proba \<longrightarrow>
      risk_suggestion a p ev prediction prediction_proba
        = [StError (''High Risk of Rain '' @ cloud_with_rain),
           StWarning (warning_sign @ '' The model predicts rain with '' @ bold a
             @ percent0 p prediction_proba @ ''% confidence'' @ bold a
             @ ''. Activating an indoor backup plan is strongly recommended''
             @ for_your a ev)])
   \<and> (prediction = 1 \<and> float_val prediction_proba \<le> 6 / 10 \<longrightarrow>
      risk_suggestion a p ev prediction prediction_proba
        = [StWarning (''Moderate Risk of Showers '' @ sun_behind_rain_cloud),
           StInfo (''The model predicts rain with '' @ bold a
             @ percent0 p prediction_proba @ ''% confidence'' @ bold a
             @ ''. Having tents or covered areas on standby is a wise precaution''
             @ for_your a ev)])
   \<and> (prediction \<noteq> 1 \<longrightarrow>
      risk_suggestion a p ev prediction prediction_proba
        = [StSuccess (''Low Risk of Rain '' @ sun),
           StInfo (check_mark @ '' The model is '' @ bold a
             @ rest_percent0 p prediction_proba @ ''% confident it will NOT rain''
             @ bold a @ ''. Conditions look favorable'' @ for_your a ev)])
   \<and> ((\<exists>m. risk_suggestion a p ev prediction prediction_proba
             = [StError (''High Risk of Rain '' @ cloud_with_rain), StWarning m])
        = (prediction = 1 \<and> float_val prediction_proba > 6 / 10
             \<and> \<not> at_float32_0_6 prediction_proba))
   \<and> ((\<exists>m. risk_suggestion a p ev prediction prediction_proba
             = [StWarning (''Moderate Risk of Showers '' @ sun_behind_rain_cloud), StInfo m])
        = (prediction = 1 \<and> (float_val prediction_proba \<le> 6 / 10
             \<or> at_float32_0_6 prediction_proba)))
   \<and> ((\<exists>m. risk_suggestion a p ev prediction prediction_proba
             = [StSuccess (''Low Risk of Rain '' @ sun), StInfo m])
        = (prediction \<noteq> 1))"
  unfolding risk_suggestion_def exceeds_0_6_iff [OF assms] by auto

text \<open>The three examples of the specification, as \<^verbatim>\<open>float32\<close> values: (1, 0.75), (1, 0.4)
  and (0, 0.1).\<close>

theorem risk_suggestion_tiers_witness:
  "is_float (Float32 3 (- 2)) \<and> float_val (Float32 3 (- 2)) = 3 / 4
   \<and> (1::int) = 1 \<and> float_val (Float32 3 (- 2)) > 6 / 10
   \<and> \<not> at_float32_0_6 (Float32 3 (- 2))
   \<and> risk_suggestion App plain_py ''Picnic'' 1 (Float32 3 (- 2))
        = [StError (''High Risk of Rain '' @ cloud_with_rain),
           StWarning (warning_sign @ '' The model predicts rain with ?% confidence''
             @ ''. Activating an indoor backup plan is strongly recommended.'')]
   \<and> is_float (Float32 13421773 (- 25)) \<and> float_val (Float32 13421773 (- 25)) \<le> 6 / 10
   \<and> risk_suggestion App plain_py ''Picnic'' 1 (Float32 13421773 (- 25))
        = [StWarning (''Moderate Risk of Showers '' @ sun_behind_rain_cloud),
           StInfo (''The model predicts rain with ?% confidence''
             @ ''. Having tents or covered areas on standby is a wise precaution.'')]
   \<and> is_float (Float32 13421773 (- 27)) \<and> (0::int) \<noteq> 1
   \<and> risk_suggestion App plain_py ''Picnic'' 0 (Float32 13421773 (- 27))
        = [StSuccess (''Low Risk of Rain '' @ sun),
           StInfo (check_mark @ '' The model is ?% confident it will NOT rain''
             @ ''. Conditions look favorable.'')]"
proof -
  have f: "is_float (Float32 3 (- 2))" "is_float (Float32 13421773 (- 25))"
    "is_float (Float32 13421773 (- 27))"
    by simp_all
  have v: "float_val (Float32 3 (- 2)) = 3 / 4" "float_val (Float32 3 (- 2)) > 6 / 10"
    "float_val (Float32 13421773 (- 25)) \<le> 6 / 10"
    by (simp_all add: pow2_def)
  have n: "\<not> at_float32_0_6 (Float32 3 (- 2))"
    by (simp add: float32_0_6_def pow2_def)
  have t: "percent0 plain_py = (\<lambda>x. ''?'')" "rest_percent0 plain_py = (\<lambda>x. ''?'')"
    "bold App = []" "for_your App ''Picnic'' = ''.''"
    by (simp_all add: plain_py_def bold_def for_your_def)
  from risk_suggestion_tiers [OF f(1), where prediction = 1 and a = App and p = plain_py
      and ev = "''Picnic''"] v(2) n
  have 1: "risk_suggestion App plain_py ''Picnic'' 1 (Float32 3 (- 2))
        = [StError (''High Risk of Rain '' @ cloud_with_rain),
           StWarning (warning_sign @ '' The model predicts rain with ?% confidence''
             @ ''. Activating an indoor backup plan is strongly recommended.'')]"
    by (simp add: t)
  from risk_suggestion_tiers [OF f(2), where prediction = 1 and a = App and p = plain_py
      and ev = "''Picnic''"] v(3)
  have 2: "risk_suggestion App plain_py ''Picnic'' 1 (Float32 13421773 (- 25))
        = [StWarning (''Moderate Risk of Showers '' @ sun_behind_rain_cloud),
           StInfo (''The model predicts rain with ?% confidence''
             @ ''. Having tents or covered areas on standby is a wise precaution.'')]"
    by (simp add: t)
  from risk_suggestion_tiers [OF f(3), where prediction = 0 and a = App and p = plain_py
      and ev = "''Picnic''"]
  have 3: "risk_suggestion App plain_py ''Picnic'' 0 (Float32 13421773 (- 27))
        = [StSuccess (''Low Risk of Rain '' @ sun),
           StInfo (check_mark @ '' The model is ?% confident it will NOT rain''
             @ ''. Conditions look favorable.'')]"
    by (simp add: t)
  from f v n 1 2 3 show ?thesis by simp
qed

text \<open>The probability \<^verbatim>\<open>np.float32(0.6)\<close> = 0.60000002384185791015625 is above 0.6, and a
  prediction of 1 with it renders "Moderate Risk": the comparison is made in \<^verbatim>\<open>float32\<close>,
  where the literal rounds to the probability itself.\<close>

theorem risk_float32_threshold_counterexample:
  "is_float float32_0_6 \<and> float_val float32_0_6 > 6 / 10
   \<and> risk_suggestion App plain_py ''Picnic'' 1 float32_0_6
        = [StWarning (''Moderate Risk of Showers '' @ sun_behind_rain_cloud),
           StInfo (''The model predicts rain with ?% confidence''
             @ ''. Having tents or covered areas on standby is a wise precaution.'')]"
  by (simp add: float32_0_6_def pow2_def risk_suggestion_def plain_py_def bold_def for_your_def)

section \<open>History fetcher: which rows come back\<close>

text \<open>Every valid date has an ordinal in the range of \<^verbatim>\<open>datetime.date\<close>.\<close>

lemma month_cases:
  "1 \<le> (m::int) \<Longrightarrow> m \<le> 12 \<Longrightarrow>
   m = 1 \<or> m = 2 \<or> m = 3 \<or> m = 4 \<or> m = 5 \<or> m = 6 \<or> m = 7 \<or> m = 8 \<or> m = 9 \<or> m = 10
   \<or> m = 11 \<or> m = 12"
  by arith

lemma day_of_year_bounds:
  assumes "1 \<le> m" "m \<le> 12" "1 \<le> dd" "dd \<le> days_in_month y m"
  shows "0 < days_before_month y m + dd \<and> days_before_month y m + dd \<le> (if y = 9999 then 365 else 366)"
proof -
  have nl: "\<not> is_leap 9999" by (simp add: is_leap_def)
  from month_cases [OF assms(1,2)] assms(3,4) nl show ?thesis
    by (auto simp: days_before_month_def days_in_month_def DAYS_BEFORE_MONTH_def
        DAYS_IN_MONTH_def split: if_splits)
qed

lemma days_before_year_bounds:
  "1 \<le> y \<Longrightarrow> y \<le> 9999 \<Longrightarrow>
   0 \<le> days_before_year y \<and> days_before_year y + (if y = 9999 then 365 else 366) \<le> 3652059"
  unfolding days_before_year_def Let_def by (auto split: if_splits)

lemma valid_date_ordinal:
  assumes "valid_date d"
  shows "0 < toordinal d \<and> toordinal d \<le> MAXORDINAL"
proof -
  from assms have y: "1 \<le> year d" "year d \<le> 9999"
    and md: "1 \<le> month d" "month d \<le> 12" "1 \<le> day d" "day d \<le> days_in_month (year d) (month d)"
    by (simp_all add: valid_date_def)
  from day_of_year_bounds [OF md] days_before_year_bounds [OF y] show ?thesis
    by (simp add: toordinal_def ymd2ord_def MAXORDINAL_def split: if_splits)
qed

lemma history_loop_rows:
  assumes "\<forall>i\<in>set offsets. 0 < toordinal d - i * 365 \<and> toordinal d - i * 365 \<le> MAXORDINAL"
  shows "history_loop rq la lo d offsets acc =
     Inr (acc @ List.map_filter
       (\<lambda>i. case archive_row rq la lo (ord2ymd (toordinal d - i * 365)) of
               Inl e \<Rightarrow> None | Inr r \<Rightarrow> Some r) offsets)"
  using assms
proof (induction offsets arbitrary: acc)
  case Nil
  then show ?case by simp
next
  case (Cons i rest)
  then show ?case
    by (simp add: date_sub_days_def Let_def split: sum.splits)
qed

lemma offsets_in_range:
  assumes "valid_date d" "5 * 365 < toordinal d"
  shows "\<forall>i\<in>set [5, 4, 3, 2, 1]. 0 < toordinal d - i * 365 \<and> toordinal d - i * 365 \<le> MAXORDINAL"
  using valid_date_ordinal [OF assms(1)] assms(2) by simp

lemma length_map_filter_le: "length (List.map_filter f xs) \<le> length xs"
  by (induction xs) (simp_all split: option.splits)

lemma in_set_map_filter:
  "x \<in> set xs \<Longrightarrow> f x = Some y \<Longrightarrow> y \<in> set (List.map_filter f xs)"
  by (induction xs) (auto split: option.splits)

text \<open>
  Claim C4, as the code has it. For an event date that lies more than five times 365 days
  after the first day of the calendar (on or after 0005-12-31, so that the five offset
  dates exist), \<^verbatim>\<open>get_historical_daily_rain\<close>
  returns without raising, whatever the archive answers: the result holds one row for each
  offset \<open>i\<close> whose request, parse and lookup succeeded, a failed offset is left out and
  the later offsets are still fetched, the rows are in the order \<open>i = 5, 4, 3, 2, 1\<close>
  (oldest first) and there are at most five.
\<close>

theorem history_best_effort:
  fixes event_date :: date
  assumes "valid_date event_date" and "5 * 365 < toordinal event_date"
  shows "\<exists>rows. get_historical_daily_rain rq la lo event_date = Inr rows
           \<and> length rows \<le> 5
           \<and> rows = List.map_filter
               (\<lambda>i. case archive_row rq la lo (ord2ymd (toordinal event_date - i * 365)) of
                       Inl e \<Rightarrow> None | Inr r \<Rightarrow> Some r) [5, 4, 3, 2, 1]"
proof -
  let ?f = "\<lambda>i. case archive_row rq la lo (ord2ymd (toordinal event_date - i * 365)) of
                       Inl e \<Rightarrow> None | Inr r \<Rightarrow> Some r"
  have "get_historical_daily_rain rq la lo event_date = Inr (List.map_filter ?f [5, 4, 3, 2, 1])"
    unfolding get_historical_daily_rain_def
    using history_loop_rows [OF offsets_in_range [OF assms], of rq la lo "[]"] by simp
  moreover have "length (List.map_filter ?f [5, 4, 3, 2, 1]) \<le> 5"
    using length_map_filter_le [of ?f "[5, 4, 3, 2, 1]"] by simp
  ultimately show ?thesis by blast
qed

text \<open>On 2026-11-04 with the patchy archive, the offsets for 2022, 2024 and 2025 fail and
  the two others are kept, oldest first.\<close>

theorem history_best_effort_witness:
  "valid_date \<lparr>year = 2026, month = 11, day = 4\<rparr>
   \<and> 5 * 365 < toordinal \<lparr>year = 2026, month = 11, day = 4\<rparr>
   \<and> get_historical_daily_rain (http_requests patchy_archive) (142 / 5) (7731 / 100)
         \<lparr>year = 2026, month = 11, day = 4\<rparr>
       = Inr [(2021, JNum (3 / 2)), (2023, JNull)]"
proof -
  let ?d = "\<lparr>year = 2026, month = 11, day = 4\<rparr>"
  have v: "valid_date ?d"
    by code_simp
  have o: "5 * 365 < toordinal ?d"
    by code_simp
  have rows: "List.map_filter
      (\<lambda>i. case archive_row (http_requests patchy_archive) (142 / 5) (7731 / 100)
                   (ord2ymd (toordinal ?d - i * 365)) of
              Inl e \<Rightarrow> None | Inr r \<Rightarrow> Some r) [5, 4, 3, 2, 1]
      = [(2021, JNum (3 / 2)), (2023, JNull)]"
    by code_simp
  from history_best_effort [OF v o, of "http_requests patchy_archive" "142 / 5" "7731 / 100"]
  have "get_historical_daily_rain (http_requests patchy_archive) (142 / 5) (7731 / 100) ?d
          = Inr [(2021, JNum (3 / 2)), (2023, JNull)]"
    unfolding rows by blast
  with v o show ?thesis by blast
qed

text \<open>For the event date 0005-12-30 the offset \<open>i = 5\<close> would be the day before
  0001-01-01: the subtraction, which is outside the \<^verbatim>\<open>try\<close>, raises \<^verbatim>\<open>OverflowError\<close> and the
  function returns nothing, whatever the archive answers.\<close>

theorem history_before_year_six_counterexample:
  "valid_date \<lparr>year = 5, month = 12, day = 30\<rparr>
   \<and> get_historical_daily_rain (http_requests dry_archive) (142 / 5) (7731 / 100)
        \<lparr>year = 5, month = 12, day = 30\<rparr>
      = Inl OverflowError"
  by code_simp

text \<open>
  Claim C10. The rainfall cell is not validated: whenever the answer for an offset parses
  to a document whose \<^verbatim>\<open>daily.precipitation_sum\<close> is an array with a first element \<open>x\<close>,
  the row (year of the offset date, \<open>x\<close>) is in the result, for every \<open>x\<close>, null
  included.
\<close>

theorem history_keeps_null_rainfall:
  fixes event_date :: date
  assumes "valid_date event_date" and "5 * 365 < toordinal event_date"
    and "i \<in> {1, 2, 3, 4, 5}"
    and "past_date = ord2ymd (toordinal event_date - i * 365)"
    and "get rq (Archive la lo past_date) = Inr resp"
    and "json_of rq resp = Inr res"
    and "getitem res ''daily'' = Inr daily"
    and "getitem daily ''precipitation_sum'' = Inr (JArr (x # xs))"
  shows "\<exists>rows. get_historical_daily_rain rq la lo event_date = Inr rows
           \<and> (year past_date, x) \<in> set rows"
proof -
  let ?f = "\<lambda>i. case archive_row rq la lo (ord2ymd (toordinal event_date - i * 365)) of
                       Inl e \<Rightarrow> None | Inr r \<Rightarrow> Some r"
  have rows: "get_historical_daily_rain rq la lo event_date = Inr (List.map_filter ?f [5, 4, 3, 2, 1])"
    unfolding get_historical_daily_rain_def
    using history_loop_rows [OF offsets_in_range [OF assms(1,2)], of rq la lo "[]"] by simp
  have "archive_row rq la lo past_date = Inr (year past_date, x)"
    using assms(5-8) by (simp add: archive_row_def bindE_def)
  then have "?f i = Some (year past_date, x)"
    using assms(4) by simp
  moreover have "i \<in> set [5, 4, 3, 2, 1]" using assms(3) by auto
  ultimately have "(year past_date, x) \<in> set (List.map_filter ?f [5, 4, 3, 2, 1])"
    by (rule in_set_map_filter [rotated])
  with rows show ?thesis by blast
qed

text \<open>The offset \<open>i = 3\<close> of 2026-11-04 is 2023-11-05, for which the patchy archive
  answers a null rainfall; the row \<open>(2023, null)\<close> is returned.\<close>

theorem history_keeps_null_rainfall_witness:
  "valid_date \<lparr>year = 2026, month = 11, day = 4\<rparr>
   \<and> 5 * 365 < toordinal \<lparr>year = 2026, month = 11, day = 4\<rparr>
   \<and> (3::int) \<in> {1, 2, 3, 4, 5}
   \<and> \<lparr>year = 2023, month = 11, day = 5\<rparr>
        = ord2ymd (toordinal \<lparr>year = 2026, month = 11, day = 4\<rparr> - 3 * 365)
   \<and> get (http_requests patchy_archive)
        (Archive (142 / 5) (7731 / 100) \<lparr>year = 2023, month = 11, day = 5\<rparr>)
        = Inr (Response 200 (Some (rain_body JNull)))
   \<and> json_of (http_requests patchy_archive) (Response 200 (Some (rain_body JNull)))
        = Inr (rain_body JNull)
   \<and> getitem (rain_body JNull) ''daily'' = Inr (JObj [(''precipitation_sum'', JArr [JNull])])
   \<and> getitem (JObj [(''precipitation_sum'', JArr [JNull])]) ''precipitation_sum''
        = Inr (JArr [JNull])
   \<and> (case get_historical_daily_rain (http_requests patchy_archive) (142 / 5) (7731 / 100)
              \<lparr>year = 2026, month = 11, day = 4\<rparr> of
         Inl e \<Rightarrow> False
       | Inr rows \<Rightarrow> (2023, JNull) \<in> set rows)"
proof -
  let ?d = "\<lparr>year = 2026, month = 11, day = 4\<rparr>"
  let ?past = "\<lparr>year = 2023, month = 11, day = 5\<rparr>"
  have v: "valid_date ?d"
    by code_simp
  have o: "5 * 365 < toordinal ?d"
    by code_simp
  have i: "(3::int) \<in> {1, 2, 3, 4, 5}"
    by simp
  have pd: "?past = ord2ymd (toordinal ?d - 3 * 365)"
    by code_simp
  have g: "get (http_requests patchy_archive) (Archive (142 / 5) (7731 / 100) ?past)
        = Inr (Response 200 (Some (rain_body JNull)))"
    by (simp add: http_requests_def patchy_archive_def)
  have j: "json_of (http_requests patchy_archive) (Response 200 (Some (rain_body JNull)))
        = Inr (rain_body JNull)"
    by (simp add: http_requests_def)
  have d: "getitem (rain_body JNull) ''daily'' = Inr (JObj [(''precipitation_sum'', JArr [JNull])])"
    by (simp add: rain_body_def)
  have ps: "getitem (JObj [(''precipitation_sum'', JArr [JNull])]) ''precipitation_sum''
        = Inr (JArr [JNull])"
    by simp
  from history_keeps_null_rainfall [OF v o i pd g j d ps]
  have "case get_historical_daily_rain (http_requests patchy_archive) (142 / 5) (7731 / 100) ?d of
         Inl e \<Rightarrow> False
       | Inr rows \<Rightarrow> (2023, JNull) \<in> set rows"
    by auto
  with v o i pd g j d ps show ?thesis by blast
qed

text \<open>
  Claim C3 says that every returned year is \<open>date.year - i\<close> for some \<open>i\<close> from 1 to 5.
  The docstring of \<^verbatim>\<open>get_historical_daily_rain\<close> promises the same date for the past five
  years, but the offsets are multiples of 365 days: for the event date 2024-12-31 the
  offset \<open>i = 1\<close> is 2024-01-01, so a row for the year 2024 itself is returned and none for
  2019.
\<close>

theorem history_year_end_of_leap_year:
  "get_historical_daily_rain (http_requests dry_archive) (142 / 5) (7731 / 100)
     \<lparr>year = 2024, month = 12, day = 31\<rparr>
   = Inr [(2020, JNum 0), (2021, JNum 0), (2022, JNum 0), (2023, JNum 0), (2024, JNum 0)]"
  by code_simp

section \<open>Forecast fetcher\<close>




section \<open>Geocoding\<close>

text \<open>
  Claim C8. When the geocoder finds no match or raises, the geocoding block returns the
  session state unchanged (latitude and longitude included), shows a warning for no match
  and an error message for a service error, and raises nothing.
\<close>

theorem geocode_failure_keeps_coordinates:
  "(geocode location_name = Inr None \<longrightarrow>
      geocode_block p geocode location_name s
        = (s, [StWarning ''Location not found. Please try another search.'']))
   \<and> (geocode location_name = Inl e \<longrightarrow>
      geocode_block p geocode location_name s
        = (s, [StError (''Geocoding service error: '' @ str_exn p e)]))"
  by (simp add: geocode_block_def)

text \<open>An unknown place name and an unreachable geocoder.\<close>

theorem geocode_failure_keeps_coordinates_witness:
  "sample_geocoder ''Atlantis'' = Inr None
   \<and> geocode_block plain_py sample_geocoder ''Atlantis'' sample_session
        = (sample_session, [StWarning ''Location not found. Please try another search.''])
   \<and> sample_geocoder ''offline'' = Inl (LibraryError ''GeocoderUnavailable'')
   \<and> geocode_block plain_py sample_geocoder ''offline'' sample_session
        = (sample_session, [StError ''Geocoding service error: GeocoderUnavailable''])"
proof -
  have n: "sample_geocoder ''Atlantis'' = Inr None"
    and e: "sample_geocoder ''offline'' = Inl (LibraryError ''GeocoderUnavailable'')"
    by (simp_all add: sample_geocoder_def)
  have m: "str_exn plain_py (LibraryError ''GeocoderUnavailable'') = ''GeocoderUnavailable''"
    by (simp add: plain_py_def)
  from geocode_failure_keeps_coordinates [where geocode = sample_geocoder and p = plain_py] n
  have 1: "geocode_block plain_py sample_geocoder ''Atlantis'' sample_session
        = (sample_session, [StWarning ''Location not found. Please try another search.''])"
    by blast
  from geocode_failure_keeps_coordinates [where geocode = sample_geocoder and p = plain_py] e
  have 2: "geocode_block plain_py sample_geocoder ''offline'' sample_session
        = (sample_session, [StError (''Geocoding service error: ''
             @ str_exn plain_py (LibraryError ''GeocoderUnavailable''))])"
    by blast
  from n e 1 2 show ?thesis by (simp add: m)
qed

section \<open>The views and the classifier\<close>

lemma calls_append [simp]: "calls (xs @ ys) = calls xs @ calls ys"
  by (induction xs rule: calls.induct) simp_all

lemma calls_risk_suggestion [simp]: "calls (risk_suggestion a p ev pr pp) = []"
  by (simp add: risk_suggestion_def)

lemma input_frame_Inr:
  assumes "input_frame daily = Inr df"
  shows "\<exists>xs ys zs tmax tmin wind.
           getitem daily ''temperature_2m_max'' = Inr xs \<and> getitem0 xs = Inr tmax
         \<and> getitem daily ''temperature_2m_min'' = Inr ys \<and> getitem0 ys = Inr tmin
         \<and> getitem daily ''windspeed_10m_max'' = Inr zs \<and> getitem0 zs = Inr wind
         \<and> df = [(''temperature_2m_max'', [tmax]), (''temperature_2m_min'', [tmin]),
                  (''windspeed_10m_max'', [wind])]"
  using assms by (auto simp: input_frame_def bindE_def split: sum.splits)

lemma calls_suggestions_body:
  assumes "df \<in> set (calls (fst (suggestions_body a p m fd s)))"
  shows "\<exists>daily. getitem fd ''daily'' = Inr daily \<and> input_frame daily = Inr df"
  using assms
  by (auto simp: suggestions_body_def bindR_def lift_def call_predict_def call_predict_proba_def
      split: sum.splits prod.splits app.splits)

lemma calls_dashboard_body:
  assumes "df \<in> set (calls (fst (dashboard_body a p m fd s)))"
  shows "\<exists>daily. getitem fd ''daily'' = Inr daily \<and> input_frame daily = Inr df"
  using assms
  by (auto simp: dashboard_body_def bindR_def lift_def emit_def call_predict_proba_def
      split: sum.splits prod.splits app.splits)

lemma calls_guarded:
  assumes "df \<in> set (calls (fst (guarded model fd body fb)))" and "calls [fb] = []"
  shows "\<exists>m. model = Some m \<and> truthy fd \<and> contains_key ''daily'' fd = Inr True
           \<and> df \<in> set (calls (fst (body m)))"
  using assms
  by (auto simp: guarded_def bindR_def lift_def emit_def
      split: option.splits sum.splits prod.splits if_splits)

lemma guarded_fallback:
  assumes "model = None \<or> \<not> truthy fd \<or> contains_key ''daily'' fd = Inr False"
  shows "guarded model fd body fb = ([fb], Inr ())"
  using assms
  by (auto simp: guarded_def bindR_def lift_def emit_def split: option.splits)

lemma fallbacks_no_call [simp]:
  "calls [suggestions_fallback a] = []" "calls [dashboard_fallback a] = []"
  by (simp_all add: suggestions_fallback_def dashboard_fallback_def)

lemma calls_suggestions:
  "calls (fst (suggestions a p model fd s))
     = calls (fst (guarded model fd (\<lambda>m. suggestions_body a p m fd s) (suggestions_fallback a)))"
  by (simp add: suggestions_def bindR_def emit_def split: prod.splits sum.splits)

lemma calls_dashboard:
  "calls (fst (dashboard a p model fd s))
     = calls (fst (guarded model fd (\<lambda>m. dashboard_body a p m fd s) (dashboard_fallback a)))"
  by (simp add: dashboard_def bindR_def emit_def split: prod.splits sum.splits)

text \<open>
  Claim C7. Every data frame handed to \<^verbatim>\<open>predict\<close> or \<^verbatim>\<open>predict_proba\<close>, by the suggestions
  view or by the dashboard, has exactly the three columns \<^verbatim>\<open>temperature_2m_max\<close>,
  \<^verbatim>\<open>temperature_2m_min\<close>, \<^verbatim>\<open>windspeed_10m_max\<close>, in this order, each holding the single
  value found at index 0 under that name in \<^verbatim>\<open>forecast_data['daily']\<close>.
\<close>

theorem classifier_input_three_features:
  assumes "df \<in> set (calls (fst (suggestions a p model fd s)))
         \<or> df \<in> set (calls (fst (dashboard a p model fd s)))"
  shows "\<exists>daily xs ys zs tmax tmin wind.
           getitem fd ''daily'' = Inr daily
         \<and> getitem daily ''temperature_2m_max'' = Inr xs \<and> getitem0 xs = Inr tmax
         \<and> getitem daily ''temperature_2m_min'' = Inr ys \<and> getitem0 ys = Inr tmin
         \<and> getitem daily ''windspeed_10m_max'' = Inr zs \<and> getitem0 zs = Inr wind
         \<and> df = [(''temperature_2m_max'', [tmax]), (''temperature_2m_min'', [tmin]),
                  (''windspeed_10m_max'', [wind])]"
proof -
  from assms have "\<exists>daily. getitem fd ''daily'' = Inr daily \<and> input_frame daily = Inr df"
  proof
    assume "df \<in> set (calls (fst (suggestions a p model fd s)))"
    then show ?thesis
      unfolding calls_suggestions
      by (blast dest: calls_guarded [OF _ fallbacks_no_call(1)] calls_suggestions_body)
  next
    assume "df \<in> set (calls (fst (dashboard a p model fd s)))"
    then show ?thesis
      unfolding calls_dashboard
      by (blast dest: calls_guarded [OF _ fallbacks_no_call(2)] calls_dashboard_body)
  qed
  then show ?thesis by (blast dest: input_frame_Inr)
qed

text \<open>The sample forecast: both calls of the suggestions view receive the frame
  \<open>(31, 22, 12)\<close>.\<close>

theorem classifier_input_three_features_witness:
  "([(''temperature_2m_max'', [JNum 31]), (''temperature_2m_min'', [JNum 22]),
     (''windspeed_10m_max'', [JNum 12])]
      \<in> set (calls (fst (suggestions App plain_py (Some sample_model) sample_forecast
                          sample_session)))
    \<or> [(''temperature_2m_max'', [JNum 31]), (''temperature_2m_min'', [JNum 22]),
        (''windspeed_10m_max'', [JNum 12])]
      \<in> set (calls (fst (dashboard App plain_py (Some sample_model) sample_forecast
                          sample_session))))
   \<and> (\<exists>daily xs ys zs tmax tmin wind.
           getitem sample_forecast ''daily'' = Inr daily
         \<and> getitem daily ''temperature_2m_max'' = Inr xs \<and> getitem0 xs = Inr tmax
         \<and> getitem daily ''temperature_2m_min'' = Inr ys \<and> getitem0 ys = Inr tmin
         \<and> getitem daily ''windspeed_10m_max'' = Inr zs \<and> getitem0 zs = Inr wind
         \<and> [(''temperature_2m_max'', [JNum 31]), (''temperature_2m_min'', [JNum 22]),
            (''windspeed_10m_max'', [JNum 12])]
           = [(''temperature_2m_max'', [tmax]), (''temperature_2m_min'', [tmin]),
              (''windspeed_10m_max'', [wind])])"
proof -
  let ?df = "[(''temperature_2m_max'', [JNum 31]), (''temperature_2m_min'', [JNum 22]),
     (''windspeed_10m_max'', [JNum 12])]"
  have c: "calls (fst (suggestions App plain_py (Some sample_model) sample_forecast
                          sample_session)) = [?df, ?df]"
    by code_simp
  have h: "?df \<in> set (calls (fst (suggestions App plain_py (Some sample_model) sample_forecast
                          sample_session)))
         \<or> ?df \<in> set (calls (fst (dashboard App plain_py (Some sample_model) sample_forecast
                          sample_session)))"
    unfolding c by simp
  from classifier_input_three_features [OF h] h show ?thesis by blast
qed

lemma calls_empty_iff: "(calls es = []) = (\<forall>df. df \<notin> set (calls es))"
  by (cases "calls es") auto

lemma calls_need_daily_record:
  assumes "df \<in> set (calls (fst (suggestions a p model fd s)))
         \<or> df \<in> set (calls (fst (dashboard a p model fd s)))"
  shows "model \<noteq> None \<and> truthy fd \<and> contains_key ''daily'' fd = Inr True
       \<and> has_daily_record fd"
proof -
  from assms have "\<exists>m. model = Some m \<and> truthy fd \<and> contains_key ''daily'' fd = Inr True
      \<and> (\<exists>daily. getitem fd ''daily'' = Inr daily \<and> input_frame daily = Inr df)"
    unfolding calls_suggestions calls_dashboard
    by (blast dest: calls_guarded [OF _ fallbacks_no_call(1)]
        calls_guarded [OF _ fallbacks_no_call(2)] calls_suggestions_body calls_dashboard_body)
  then show ?thesis by (auto simp: has_daily_record_def)
qed

text \<open>
  Claim C2, as the code has it. A view calls the classifier only when the model is loaded,
  the payload is truthy, the membership test \<^verbatim>\<open>'daily' in forecast_data\<close> holds and the payload
  contains a daily record; for a payload without a daily record no view calls the
  classifier; when the model is missing, the payload is \<^verbatim>\<open>None\<close> or the payload is an object
  without the key \<^verbatim>\<open>daily\<close>, each view renders its header and its fallback message and
  raises nothing.
\<close>

theorem views_guard:
  "(df \<in> set (calls (fst (suggestions a p model fd s)))
      \<or> df \<in> set (calls (fst (dashboard a p model fd s)))
    \<longrightarrow> model \<noteq> None \<and> truthy fd \<and> contains_key ''daily'' fd = Inr True
        \<and> has_daily_record fd)
   \<and> (\<not> has_daily_record fd
    \<longrightarrow> calls (fst (suggestions a p model fd s)) = []
      \<and> calls (fst (dashboard a p model fd s)) = [])
   \<and> (model = None \<or> fd = JNull \<or> (\<exists>kvs. fd = JObj kvs \<and> map_of kvs ''daily'' = None)
    \<longrightarrow> suggestions a p model fd s
          = ([StHeader (case a of App \<Rightarrow> ''Suggestions for Event''
                                | MainApp \<Rightarrow> ''Suggestions for Your Event''),
              suggestions_fallback a], Inr ())
      \<and> dashboard a p model fd s
          = ([StHeader (''Forecast for '' @ str_date p (event_date s)), dashboard_fallback a],
             Inr ()))"
proof (intro conjI impI)
  assume "df \<in> set (calls (fst (suggestions a p model fd s)))
      \<or> df \<in> set (calls (fst (dashboard a p model fd s)))"
  from calls_need_daily_record [OF this]
  show "model \<noteq> None" "truthy fd" "contains_key ''daily'' fd = Inr True" "has_daily_record fd"
    by simp_all
next
  assume n: "\<not> has_daily_record fd"
  show "calls (fst (suggestions a p model fd s)) = []"
    unfolding calls_empty_iff using n calls_need_daily_record [of _ a p model fd s] by blast
  show "calls (fst (dashboard a p model fd s)) = []"
    unfolding calls_empty_iff using n calls_need_daily_record [of _ a p model fd s] by blast
next
  assume "model = None \<or> fd = JNull \<or> (\<exists>kvs. fd = JObj kvs \<and> map_of kvs ''daily'' = None)"
  then have g: "model = None \<or> \<not> truthy fd \<or> contains_key ''daily'' fd = Inr False"
    by auto
  show "suggestions a p model fd s
          = ([StHeader (case a of App \<Rightarrow> ''Suggestions for Event''
                                | MainApp \<Rightarrow> ''Suggestions for Your Event''),
              suggestions_fallback a], Inr ())"
    by (simp add: suggestions_def guarded_fallback [OF g] bindR_def emit_def)
  show "dashboard a p model fd s
          = ([StHeader (''Forecast for '' @ str_date p (event_date s)), dashboard_fallback a],
             Inr ())"
    by (simp add: dashboard_def guarded_fallback [OF g] bindR_def emit_def)
qed

text \<open>The sample forecast passes the guard; a payload with empty daily arrays leads to no
  classifier call; a payload with only \<^verbatim>\<open>hourly\<close> gets the fallback of each view.\<close>

theorem views_guard_witness:
  "([(''temperature_2m_max'', [JNum 31]), (''temperature_2m_min'', [JNum 22]),
     (''windspeed_10m_max'', [JNum 12])]
      \<in> set (calls (fst (suggestions App plain_py (Some sample_model) sample_forecast
                          sample_session)))
    \<or> [(''temperature_2m_max'', [JNum 31]), (''temperature_2m_min'', [JNum 22]),
        (''windspeed_10m_max'', [JNum 12])]
      \<in> set (calls (fst (dashboard App plain_py (Some sample_model) sample_forecast
                          sample_session))))
   \<and> Some sample_model \<noteq> None \<and> truthy sample_forecast
   \<and> contains_key ''daily'' sample_forecast = Inr True
   \<and> has_daily_record sample_forecast
   \<and> \<not> has_daily_record empty_daily_forecast
   \<and> calls (fst (suggestions App plain_py (Some sample_model) empty_daily_forecast
                    sample_session)) = []
   \<and> calls (fst (dashboard App plain_py (Some sample_model) empty_daily_forecast
                    sample_session)) = []
   \<and> no_daily_forecast = JObj [(''hourly'', JObj [])]
   \<and> map_of [(''hourly'', JObj [])] ''daily'' = None
   \<and> suggestions MainApp plain_py (Some sample_model) no_daily_forecast sample_session
        = ([StHeader ''Suggestions for Your Event'', suggestions_fallback MainApp], Inr ())
   \<and> dashboard MainApp plain_py (Some sample_model) no_daily_forecast sample_session
        = ([StHeader ''Forecast for ?'', dashboard_fallback MainApp], Inr ())"
proof -
  let ?df = "[(''temperature_2m_max'', [JNum 31]), (''temperature_2m_min'', [JNum 22]),
     (''windspeed_10m_max'', [JNum 12])]"
  have c: "calls (fst (suggestions App plain_py (Some sample_model) sample_forecast
                          sample_session)) = [?df, ?df]"
    by code_simp
  have h: "?df \<in> set (calls (fst (suggestions App plain_py (Some sample_model) sample_forecast
                          sample_session)))
         \<or> ?df \<in> set (calls (fst (dashboard App plain_py (Some sample_model) sample_forecast
                          sample_session)))"
    unfolding c by simp
  have e: "\<not> has_daily_record empty_daily_forecast"
    by code_simp
  have n: "no_daily_forecast = JObj [(''hourly'', JObj [])]"
    by (simp add: no_daily_forecast_def)
  have k: "map_of [(''hourly'', JObj [])] ''daily'' = None"
    by simp
  have g: "Some sample_model = None \<or> no_daily_forecast = JNull
         \<or> (\<exists>kvs. no_daily_forecast = JObj kvs \<and> map_of kvs ''daily'' = None)"
    using n k by blast
  have d: "event_date sample_session = \<lparr>year = 2026, month = 11, day = 4\<rparr>"
    "str_date plain_py \<lparr>year = 2026, month = 11, day = 4\<rparr> = ''?''"
    by (simp_all add: sample_session_def plain_py_def)
  from views_guard [of ?df App plain_py "Some sample_model" sample_forecast sample_session] h
  have 1: "Some sample_model \<noteq> None \<and> truthy sample_forecast
             \<and> contains_key ''daily'' sample_forecast = Inr True
             \<and> has_daily_record sample_forecast"
    by blast
  from views_guard [of ?df App plain_py "Some sample_model" empty_daily_forecast
      sample_session] e
  have 2: "calls (fst (suggestions App plain_py (Some sample_model) empty_daily_forecast
                    sample_session)) = []
      \<and> calls (fst (dashboard App plain_py (Some sample_model) empty_daily_forecast
                    sample_session)) = []"
    by blast
  from views_guard [of ?df MainApp plain_py "Some sample_model" no_daily_forecast
      sample_session] g
  have "suggestions MainApp plain_py (Some sample_model) no_daily_forecast sample_session
        = ([StHeader (case MainApp of App \<Rightarrow> ''Suggestions for Event''
                                | MainApp \<Rightarrow> ''Suggestions for Your Event''),
            suggestions_fallback MainApp], Inr ())
      \<and> dashboard MainApp plain_py (Some sample_model) no_daily_forecast sample_session
        = ([StHeader (''Forecast for '' @ str_date plain_py (event_date sample_session)),
            dashboard_fallback MainApp], Inr ())"
    by blast
  then have 3: "suggestions MainApp plain_py (Some sample_model) no_daily_forecast sample_session
        = ([StHeader ''Suggestions for Your Event'', suggestions_fallback MainApp], Inr ())
      \<and> dashboard MainApp plain_py (Some sample_model) no_daily_forecast sample_session
        = ([StHeader ''Forecast for ?'', dashboard_fallback MainApp], Inr ())"
    by (simp add: d)
  from h 1 e 2 n k 3 show ?thesis by blast
qed

text \<open>The guard tests the key only. A payload whose \<^verbatim>\<open>daily\<close> object holds empty arrays has
  no daily record, and yet passes the guard: both views then index into the empty array
  and end with \<^verbatim>\<open>IndexError\<close>, without a fallback message.\<close>

theorem views_empty_daily_counterexample:
  "suggestions App plain_py (Some sample_model) empty_daily_forecast sample_session
     = ([StHeader ''Suggestions for Event''], Inl IndexError)
   \<and> dashboard App plain_py (Some sample_model) empty_daily_forecast sample_session
     = ([StHeader ''Forecast for ?''], Inl IndexError)"
  by code_simp

section \<open>Model loading\<close>

text \<open>
  Claim C6. When opening or unpickling the model file raises, \<^verbatim>\<open>load_model\<close> shows one
  error message and returns \<^verbatim>\<open>None\<close>; with that result the suggestions view renders its
  "unavailable" error and the dashboard its warning, for every payload, and neither raises.
\<close>

theorem load_failure_degrades:
  assumes "unpickle model_path = Inl e"
  shows "fst (load_model p unpickle model_path) = None
       \<and> (\<exists>msg. snd (load_model p unpickle model_path) = [StError msg])
       \<and> suggestions a p (fst (load_model p unpickle model_path)) fd s
          = ([StHeader (case a of App \<Rightarrow> ''Suggestions for Event''
                                | MainApp \<Rightarrow> ''Suggestions for Your Event''),
              suggestions_fallback a], Inr ())
       \<and> dashboard a p (fst (load_model p unpickle model_path)) fd s
          = ([StHeader (''Forecast for '' @ str_date p (event_date s)), dashboard_fallback a],
             Inr ())"
proof -
  have l: "fst (load_model p unpickle model_path) = None"
    and m: "\<exists>msg. snd (load_model p unpickle model_path) = [StError msg]"
    using assms by (cases e; simp add: load_model_def)+
  show ?thesis
    using l m by (simp add: suggestions_def dashboard_def guarded_fallback bindR_def emit_def)
qed

text \<open>A missing model file, with the sample forecast at hand.\<close>

theorem load_failure_degrades_witness:
  "missing_file ''daily_rain_classifier.pkl'' = Inl FileNotFoundError
   \<and> fst (load_model plain_py missing_file ''daily_rain_classifier.pkl'') = None
   \<and> snd (load_model plain_py missing_file ''daily_rain_classifier.pkl'')
        = [StError (''Error: The model file '' @ apostrophe @ ''daily_rain_classifier.pkl''
             @ apostrophe @ '' was not found. Make sure it'' @ apostrophe
             @ ''s in the same directory.'')]
   \<and> suggestions App plain_py (fst (load_model plain_py missing_file ''daily_rain_classifier.pkl''))
        sample_forecast sample_session
        = ([StHeader ''Suggestions for Event'', suggestions_fallback App], Inr ())
   \<and> dashboard App plain_py (fst (load_model plain_py missing_file ''daily_rain_classifier.pkl''))
        sample_forecast sample_session
        = ([StHeader ''Forecast for ?'', dashboard_fallback App], Inr ())"
proof -
  have h: "missing_file ''daily_rain_classifier.pkl'' = Inl FileNotFoundError"
    by (simp add: missing_file_def)
  have m: "snd (load_model plain_py missing_file ''daily_rain_classifier.pkl'')
        = [StError (''Error: The model file '' @ apostrophe @ ''daily_rain_classifier.pkl''
             @ apostrophe @ '' was not found. Make sure it'' @ apostrophe
             @ ''s in the same directory.'')]"
    by (simp add: load_model_def missing_file_def)
  have d: "event_date sample_session = \<lparr>year = 2026, month = 11, day = 4\<rparr>"
    "str_date plain_py \<lparr>year = 2026, month = 11, day = 4\<rparr> = ''?''"
    by (simp_all add: sample_session_def plain_py_def)
  have t: "(case App of App \<Rightarrow> ''Suggestions for Event''
                      | MainApp \<Rightarrow> ''Suggestions for Your Event'') = ''Suggestions for Event''"
    "''Forecast for '' @ str_date plain_py (event_date sample_session) = ''Forecast for ?''"
    by (simp_all add: d)
  from load_failure_degrades [where unpickle = missing_file
      and model_path = "''daily_rain_classifier.pkl''" and p = plain_py and a = App
      and fd = sample_forecast and s = sample_session, OF h, unfolded t] h m
  show ?thesis by blast
qed

end
